theory Spec2Isabelle
  imports Main
begin

section \<open>Data model\<close>

subsection \<open>Scans\<close>

text \<open>
  The type \<^verbatim>\<open>ScanStatus\<close> and the interface \<^verbatim>\<open>Scan\<close> of the client's type declarations.
  Of the fields of a scan only the identifier, the status and the progress are kept; the
  others are never read by the code modelled here.
\<close>

datatype ScanStatus = Pending | Running | Completed | Failed | Cancelled

record scan =
  scan_id :: nat
  status :: ScanStatus
  progress :: nat

subsection \<open>The session store\<close>

text \<open>
  Modelled from the spec: the module \<^verbatim>\<open>stores/authStore\<close> is imported by
  \<^verbatim>\<open>services/api.ts\<close> but is not among the sources. The specification gives the session as
  \<open>{accessToken, refreshToken, user}\<close>, held by a process-wide store; a token that is
  absent is \<open>None\<close>.
\<close>

record auth_store =
  user :: "string option"
  accessToken :: "string option"
  refreshToken :: "string option"

text \<open>
  Modelled from the spec: \<^verbatim>\<open>setTokens\<close> of the missing \<^verbatim>\<open>authStore\<close>; the specification says
  that a token refresh mutates the session by persisting the new access and refresh tokens.
\<close>

definition setTokens :: "string \<Rightarrow> string \<Rightarrow> auth_store \<Rightarrow> auth_store" where
  "setTokens access refresh st = st\<lparr>accessToken := Some access, refreshToken := Some refresh\<rparr>"

text \<open>
  Modelled from the spec: \<^verbatim>\<open>logout\<close> of the missing \<^verbatim>\<open>authStore\<close>; the specification says
  that logout destroys the session, so all three components are cleared.
\<close>

definition logout :: "auth_store \<Rightarrow> auth_store" where
  "logout st = \<lparr>user = None, accessToken = None, refreshToken = None\<rparr>"

text \<open>
  JavaScript's truth value of a token read from the store, as tested by
  \<^verbatim>\<open>if (accessToken)\<close> and \<^verbatim>\<open>if (refreshToken)\<close>: \<^verbatim>\<open>null\<close> and the empty string are
  false, every other string is true. A token is present in the store when it is true in
  this sense.
\<close>

definition truthy :: "string option \<Rightarrow> bool" where
  "truthy t = (case t of None \<Rightarrow> False | Some s \<Rightarrow> s \<noteq> [])"

text \<open>
  Modelled from the spec: \<^verbatim>\<open>isAuthenticated\<close> of the missing \<^verbatim>\<open>authStore\<close>, which the route
  guards read. The specification says that the session is created on a successful login
  and destroyed on logout; \<^verbatim>\<open>Login\<close> completes a login by handing the user to the store, so
  a session exists exactly while the store holds a user.
\<close>

definition isAuthenticated :: "auth_store \<Rightarrow> bool" where
  "isAuthenticated st = (user st \<noteq> None)"

section \<open>The authenticated API client\<close>

text \<open>
  \<^verbatim>\<open>services/api.ts\<close> creates an axios instance \<^verbatim>\<open>api\<close> and installs one request interceptor
  and one response interceptor. A request configuration carries the URL, the
  \<^verbatim>\<open>Authorization\<close> header and the flag \<^verbatim>\<open>_retry\<close> that the response interceptor sets.
\<close>

record request_config =
  req_url :: string
  authorization :: "string option"
  retry :: bool

record response =
  resp_status :: nat
  resp_data :: string

text \<open>
  The error object a rejected request carries: \<^verbatim>\<open>error.response?.status\<close> (absent when no
  response was received), the body, and \<^verbatim>\<open>error.config\<close>, the configuration of the request
  that failed.
\<close>

record axios_error =
  err_status :: "nat option"
  err_data :: string
  err_config :: request_config

text \<open>
  The backend is outside the client. What it answers is given by two scripts: the answers
  to the successive requests sent through \<^verbatim>\<open>api\<close>, and the answers to the successive calls
  of \<^verbatim>\<open>POST /auth/refresh\<close>. A script that has run out stands for a network failure. The
  failure of a refresh call carries its own status, which the interceptor never reads.
\<close>

datatype reply = Http nat string | No_response

datatype refresh_reply = Refresh_ok string string | Refresh_failed "nat option"

text \<open>
  The effects of the client in program order: a request put on the wire, the marking of a
  request as retried, a refresh call with the refresh token it sends, and the two mutations
  of the session store.
\<close>

datatype event =
    Sent request_config
  | Retry_marked request_config
  | Refresh_post string
  | Tokens_set string string
  | Logged_out

record world =
  store :: auth_store
  replies :: "reply list"
  refresh_replies :: "refresh_reply list"
  trace :: "event list"

definition emit :: "event \<Rightarrow> world \<Rightarrow> world" where
  "emit e w = w\<lparr>trace := trace w @ [e]\<rparr>"

definition next_reply :: "world \<Rightarrow> reply" where
  "next_reply w = (case replies w of [] \<Rightarrow> No_response | r # _ \<Rightarrow> r)"

definition send :: "request_config \<Rightarrow> world \<Rightarrow> reply \<times> world" where
  "send config w = (next_reply w, emit (Sent config) (w\<lparr>replies := tl (replies w)\<rparr>))"

definition next_refresh :: "world \<Rightarrow> refresh_reply" where
  "next_refresh w = (case refresh_replies w of [] \<Rightarrow> Refresh_failed None | r # _ \<Rightarrow> r)"

text \<open>
  \<^verbatim>\<open>axios.post(`${API_BASE_URL}/auth/refresh`, { refresh_token: refreshToken })\<close>: a call
  of plain axios, which passes through no interceptor of \<^verbatim>\<open>api\<close>.
\<close>

definition refresh_post :: "string \<Rightarrow> world \<Rightarrow> refresh_reply \<times> world" where
  "refresh_post tok w =
     (next_refresh w, emit (Refresh_post tok) (w\<lparr>refresh_replies := tl (refresh_replies w)\<rparr>))"

text \<open>
  axios settles a request by its status: a status from 200 to 299 resolves the promise
  with the response, any other status and a missing response reject it with an error that
  holds the request's configuration.
\<close>

definition settle :: "request_config \<Rightarrow> reply \<Rightarrow> axios_error + response" where
  "settle config r =
     (case r of
        Http s d \<Rightarrow>
          if 200 \<le> s \<and> s < 300 then Inr \<lparr>resp_status = s, resp_data = d\<rparr>
          else Inl \<lparr>err_status = Some s, err_data = d, err_config = config\<rparr>
      | No_response \<Rightarrow> Inl \<lparr>err_status = None, err_data = [], err_config = config\<rparr>)"

text \<open>The template literal \<^verbatim>\<open>`Bearer ${accessToken}`\<close>.\<close>

definition bearer :: "string \<Rightarrow> string" where
  "bearer tok = ''Bearer '' @ tok"

text \<open>
  The request interceptor: it reads the access token from the store and, when the token is
  true, sets the \<^verbatim>\<open>Authorization\<close> header; otherwise it returns the configuration as it is.
\<close>

definition request_interceptor :: "auth_store \<Rightarrow> request_config \<Rightarrow> request_config" where
  "request_interceptor st config =
     (case accessToken st of
        None \<Rightarrow> config
      | Some tok \<Rightarrow> if tok \<noteq> [] then config\<lparr>authorization := Some (bearer tok)\<rparr> else config)"

lemma retry_request_interceptor [simp]:
  "retry (request_interceptor st config) = retry config"
  by (simp add: request_interceptor_def split: option.split)

lemma settle_Inl_config: "settle config r = Inl error \<Longrightarrow> err_config error = config"
  by (auto simp: settle_def split: reply.splits if_splits)

text \<open>
  A call \<^verbatim>\<open>api(config)\<close> runs the request interceptor, sends the request and settles it; a
  fulfilled response passes the response interceptor unchanged (\<^verbatim>\<open>(response) => response\<close>),
  a rejection is handled by its second function, \<open>response_rejected\<close>. That function
  calls \<^verbatim>\<open>api(originalRequest)\<close> again after a successful refresh, so the two are mutually
  recursive. The \<^verbatim>\<open>return api(originalRequest)\<close> is not awaited inside the \<^verbatim>\<open>try\<close> block:
  a rejection of the retried request is the result of the handler and does not reach the
  \<^verbatim>\<open>catch\<close>. The error object holds the request configuration itself, so marking
  \<^verbatim>\<open>originalRequest._retry\<close> shows in \<^verbatim>\<open>error.config\<close>.
\<close>

function api :: "request_config \<Rightarrow> world \<Rightarrow> (axios_error + response) \<times> world"
  and response_rejected :: "axios_error \<Rightarrow> world \<Rightarrow> (axios_error + response) \<times> world"
where
  "api config w =
     (let config = request_interceptor (store w) config in
      case send config w of
        (r, w) \<Rightarrow>
          (case settle config r of
             Inr response \<Rightarrow> (Inr response, w)
           | Inl error \<Rightarrow> response_rejected error w))"
| "response_rejected error w =
     (if err_status error = Some 401 \<and> \<not> retry (err_config error) then
        let originalRequest = (err_config error)\<lparr>retry := True\<rparr>;
            error = error\<lparr>err_config := originalRequest\<rparr>;
            w = emit (Retry_marked originalRequest) w
        in case refreshToken (store w) of
             None \<Rightarrow> (Inl error, emit Logged_out (w\<lparr>store := logout (store w)\<rparr>))
           | Some tok \<Rightarrow>
               if tok \<noteq> [] then
                 case refresh_post tok w of
                   (Refresh_ok access_token refresh_token, w) \<Rightarrow>
                     api (originalRequest\<lparr>authorization := Some (bearer access_token)\<rparr>)
                       (emit (Tokens_set access_token refresh_token)
                         (w\<lparr>store := setTokens access_token refresh_token (store w)\<rparr>))
                 | (Refresh_failed _, w) \<Rightarrow>
                     (Inl error, emit Logged_out (w\<lparr>store := logout (store w)\<rparr>))
               else (Inl error, emit Logged_out (w\<lparr>store := logout (store w)\<rparr>))
      else (Inl error, w))"
  by pat_completeness auto
termination
  by (relation "measure (\<lambda>x. case x of
          Inl (config, w) \<Rightarrow> (if retry config then 1 else 3)
        | Inr (error, w) \<Rightarrow> (if retry (err_config error) then 0 else 2))")
     (auto dest: settle_Inl_config)

declare api.simps [simp del] response_rejected.simps [simp del]

text \<open>The events a run has added to the trace, and two tests on events.\<close>

definition new_events :: "world \<Rightarrow> world \<Rightarrow> event list" where
  "new_events w w' = drop (length (trace w)) (trace w')"

fun is_Sent :: "event \<Rightarrow> bool" where
  "is_Sent (Sent _) = True"
| "is_Sent _ = False"

fun is_Refresh_post :: "event \<Rightarrow> bool" where
  "is_Refresh_post (Refresh_post _) = True"
| "is_Refresh_post _ = False"

text \<open>
  \<^verbatim>\<open>scanAPI.get\<close>: a request for \<^verbatim>\<open>`/scans/${id}`\<close> through \<^verbatim>\<open>api\<close> that returns the body of
  the response. \<open>scanId\<close> is the decimal numeral of the identifier; reading the body as a
  scan is the parameter \<open>decode\<close>.
\<close>

definition scanAPI_get ::
    "(string \<Rightarrow> scan) \<Rightarrow> string \<Rightarrow> world \<Rightarrow> (axios_error + scan) \<times> world" where
  "scanAPI_get decode scanId w =
     (case api \<lparr>req_url = ''/scans/'' @ scanId, authorization = None, retry = False\<rparr> w of
        (Inr response, w) \<Rightarrow> (Inr (decode (resp_data response)), w)
      | (Inl error, w) \<Rightarrow> (Inl error, w))"

section \<open>The route guard\<close>

text \<open>
  \<^verbatim>\<open>ProtectedRoute\<close> of the application's routes, which encloses every page behind the
  login, the scan detail view among them: it reads \<^verbatim>\<open>isAuthenticated\<close> from the store and
  returns the redirection to the login page or its children.
\<close>

datatype 'a route = Navigate_to_login | Children 'a

definition ProtectedRoute :: "auth_store \<Rightarrow> 'a \<Rightarrow> 'a route" where
  "ProtectedRoute st children =
     (if \<not> isAuthenticated st then Navigate_to_login else Children children)"

section \<open>The scan detail view\<close>

text \<open>
  \<^verbatim>\<open>ScanDetail\<close> reads the scan with \<^verbatim>\<open>useQuery\<close>. The option \<^verbatim>\<open>refetchInterval\<close> is a
  function of the query's data, which is \<^verbatim>\<open>undefined\<close> (here \<open>None\<close>) until a fetch has
  succeeded; its result \<^verbatim>\<open>false\<close> is \<open>None\<close>, a number of milliseconds is \<open>Some\<close>.
\<close>

definition refetchInterval :: "scan option \<Rightarrow> nat option" where
  "refetchInterval data =
     (if map_option status data = Some Running \<or> map_option status data = Some Pending
      then Some 3000 else None)"


text \<open>
  What the component returns: the spinner while \<^verbatim>\<open>scanLoading\<close>, the "scan not found" page
  when there is no scan, the page of the scan otherwise. The error of the query is not
  among the values the component takes from \<^verbatim>\<open>useQuery\<close>.
\<close>

datatype view = Loading_spinner | Scan_not_found | Scan_page scan

definition ScanDetail :: "bool \<Rightarrow> scan option \<Rightarrow> view" where
  "ScanDetail scanLoading scan =
     (if scanLoading then Loading_spinner
      else case scan of None \<Rightarrow> Scan_not_found | Some s \<Rightarrow> Scan_page s)"

text \<open>
  The query library is not part of the repository; its scheduling is modelled as its
  documentation gives it. A fetch calls \<^verbatim>\<open>scanAPI.get\<close> and either yields a scan or
  fails. A failure is reported with the error of the client, the session store as the call
  has left it, and the time in milliseconds the library took to report it: the library
  repeats a failed call by itself before it reports the failure, and how often and after
  which delays is set where the query client is created, which is not among the sources.
  The latency of a successful fetch is neglected.
\<close>

datatype fetch_result = Fetched scan | Fetch_error axios_error auth_store nat

definition fetch_reported :: "nat \<Rightarrow> (axios_error + scan) \<times> world \<Rightarrow> fetch_result" where
  "fetch_reported elapsed outcome =
     (case outcome of
        (Inr s, w) \<Rightarrow> Fetched s
      | (Inl error, w) \<Rightarrow> Fetch_error error (store w) elapsed)"

text \<open>
  The data of a query is that of its last successful fetch: a failed fetch leaves it as
  it was.
\<close>

fun query_data :: "scan option \<Rightarrow> fetch_result \<Rightarrow> scan option" where
  "query_data data (Fetched s) = Some s"
| "query_data data (Fetch_error error st elapsed) = data"

fun report_time :: "fetch_result \<Rightarrow> nat" where
  "report_time (Fetched s) = 0"
| "report_time (Fetch_error error st elapsed) = elapsed"

text \<open>
  The view is rendered inside \<^verbatim>\<open>ProtectedRoute\<close>. When a fetch has left the store without a
  session, the guard returns the redirection in place of the view; the view is removed
  and the timer of its query with it.
\<close>

fun view_removed :: "fetch_result \<Rightarrow> bool" where
  "view_removed (Fetched s) = False"
| "view_removed (Fetch_error error st elapsed) = (\<not> isAuthenticated st)"

text \<open>
  After every fetch the library calls \<^verbatim>\<open>refetchInterval\<close> on the data and, for a number,
  fetches again that many milliseconds after the result; for \<^verbatim>\<open>false\<close> no fetch is
  scheduled. \<open>poll data t script\<close> lists the fetches made from time \<open>t\<close> on, each with the
  time in milliseconds at which it starts, when the successive fetches end as the script
  says; the end of the script is the moment the user leaves the view.
\<close>

fun poll :: "scan option \<Rightarrow> nat \<Rightarrow> fetch_result list \<Rightarrow> (nat \<times> fetch_result) list" where
  "poll data t [] = []"
| "poll data t (r # rs) =
     (t, r) # (if view_removed r then []
               else case refetchInterval (query_data data r) of
                      Some ms \<Rightarrow> poll (query_data data r) (t + report_time r + ms) rs
                    | None \<Rightarrow> [])"



text \<open>The terminal statuses of the specification's glossary.\<close>

definition terminal :: "ScanStatus \<Rightarrow> bool" where
  "terminal s = (s = Completed \<or> s = Failed \<or> s = Cancelled)"

section \<open>Failure messages of the forms\<close>

text \<open>
  The texts the forms show are either fixed texts of the client, named here by what they
  say, or texts taken from the response of the backend.
\<close>

datatype ui_text =
    Login_failed | Server_error | Network_error | Registration_failed | Invalid_input
  | Unknown_error | Scan_start_failed | Url_required | Terms_required | Invalid_url

datatype message = Fixed ui_text | Server_text string

text \<open>
  The \<^verbatim>\<open>detail\<close> of a failed response is untyped in the source. It is absent, a string, an
  array, or an object with an optional \<^verbatim>\<open>message\<close>; an element of the array is a string or
  an object with an optional \<^verbatim>\<open>msg\<close>.
\<close>

datatype entry = Entry_string string | Entry_object "string option"

datatype detail =
    Detail_absent
  | Detail_string string
  | Detail_list "entry list"
  | Detail_object "string option"

text \<open>
  A caught error has a response (\<^verbatim>\<open>error.response\<close>, with status and detail), or only a
  request, or neither (then it may have a \<^verbatim>\<open>message\<close>).
\<close>

datatype failure =
    Response_received nat detail
  | No_response_received
  | Setup_failed "string option"

text \<open>
  \<^verbatim>\<open>Array.prototype.join\<close> on the results of \<^verbatim>\<open>err.msg\<close>: an \<^verbatim>\<open>undefined\<close> element is joined as
  the empty string.
\<close>

fun msg :: "entry \<Rightarrow> string option" where
  "msg (Entry_string s) = None"
| "msg (Entry_object m) = m"

definition string_of :: "string option \<Rightarrow> string" where
  "string_of v = (case v of None \<Rightarrow> [] | Some s \<Rightarrow> s)"

fun join :: "string \<Rightarrow> string list \<Rightarrow> string" where
  "join sep [] = []"
| "join sep [x] = x"
| "join sep (x # y # ys) = x @ sep @ join sep (y # ys)"

text \<open>\<^verbatim>\<open>v || dflt\<close> for a value that is a string or \<^verbatim>\<open>undefined\<close>.\<close>

definition or_else :: "string option \<Rightarrow> message \<Rightarrow> message" where
  "or_else v dflt =
     (case v of None \<Rightarrow> dflt | Some s \<Rightarrow> if s = [] then dflt else Server_text s)"

text \<open>
  The \<^verbatim>\<open>catch\<close> block of \<^verbatim>\<open>handleSubmit\<close> in \<^verbatim>\<open>Login\<close>; the result lists the calls of
  \<^verbatim>\<open>toast.error\<close>, one message each.
\<close>

definition Login_catch :: "failure \<Rightarrow> message list" where
  "Login_catch error =
     (let message =
        (case error of
           Response_received code detail \<Rightarrow>
             (let message =
                (case detail of
                   Detail_string s \<Rightarrow> Server_text s
                 | Detail_list errs \<Rightarrow>
                     Server_text (join '', '' (map (\<lambda>err. string_of (msg err)) errs))
                 | _ \<Rightarrow> Fixed Login_failed)
              in if code = 500 then Fixed Server_error else message)
         | No_response_received \<Rightarrow> Fixed Network_error
         | Setup_failed _ \<Rightarrow> Fixed Login_failed)
      in [message])"

text \<open>
  The \<^verbatim>\<open>catch\<close> block of \<^verbatim>\<open>handleSubmit\<close> in \<^verbatim>\<open>Register\<close>: it collects \<^verbatim>\<open>messages\<close> and
  shows each with a call of \<^verbatim>\<open>toast.error\<close> of its own.
\<close>

fun Register_entry :: "entry \<Rightarrow> message" where
  "Register_entry (Entry_string s) = Server_text s"
| "Register_entry (Entry_object m) = or_else m (Fixed Invalid_input)"

definition Register_catch :: "failure \<Rightarrow> message list" where
  "Register_catch error =
     (let messages =
        (case error of
           Response_received code detail \<Rightarrow>
             (let messages =
                (case detail of
                   Detail_string s \<Rightarrow> [Server_text s]
                 | Detail_list errs \<Rightarrow> map Register_entry errs
                 | Detail_object m \<Rightarrow>
                     (case m of None \<Rightarrow> [] | Some s \<Rightarrow> if s = [] then [] else [Server_text s])
                 | Detail_absent \<Rightarrow> [])
              in if code = 500 then [Fixed Server_error] else messages)
         | No_response_received \<Rightarrow> [Fixed Network_error]
         | Setup_failed m \<Rightarrow> [or_else m (Fixed Unknown_error)])
      in if length messages = 0 then [Fixed Registration_failed] else messages)"

text \<open>
  The \<^verbatim>\<open>catch\<close> block of \<^verbatim>\<open>handleSubmit\<close> in \<^verbatim>\<open>NewScan\<close>:
  \<^verbatim>\<open>error.response?.data?.detail || '...'\<close> is handed to one call of \<^verbatim>\<open>toast.error\<close>, whatever
  its type. An absent detail and the empty string are false; an array and an object are
  true and are handed over as they are.
\<close>

datatype toast_argument = Text message | Raw detail

definition NewScan_catch :: "failure \<Rightarrow> toast_argument list" where
  "NewScan_catch error =
     (let message =
        (case error of
           Response_received code detail \<Rightarrow>
             (case detail of
                Detail_absent \<Rightarrow> Text (Fixed Scan_start_failed)
              | Detail_string s \<Rightarrow>
                  if s = [] then Text (Fixed Scan_start_failed) else Text (Server_text s)
              | _ \<Rightarrow> Raw detail)
         | _ \<Rightarrow> Text (Fixed Scan_start_failed))
      in [message])"

section \<open>The new-scan form\<close>

record scan_type_choice =
  type_id :: string
  depth :: nat

definition scanTypes :: "scan_type_choice list" where
  "scanTypes =
     [\<lparr>type_id = ''quick'', depth = 1\<rparr>,
      \<lparr>type_id = ''full'', depth = 3\<rparr>,
      \<lparr>type_id = ''custom'', depth = 5\<rparr>]"

record scan_create =
  target_url :: string
  scan_type :: string
  scan_depth :: nat

text \<open>
  What \<^verbatim>\<open>handleSubmit\<close> does with the form: it shows an error and returns, or it calls
  \<^verbatim>\<open>scanAPI.create\<close> with the data of the request.
\<close>

datatype submission = Toast_error ui_text | Create_scan scan_create

definition startsWith :: "string \<Rightarrow> string \<Rightarrow> bool" where
  "startsWith s p = (take (length p) s = p)"

definition targetUrl :: "string \<Rightarrow> string" where
  "targetUrl url =
     (if \<not> startsWith url ''http://'' \<and> \<not> startsWith url ''https://''
      then ''https://'' @ url else url)"

text \<open>
  \<^verbatim>\<open>new URL(targetUrl)\<close> is the URL parser of the browser; whether it accepts a string is
  the parameter \<open>url_parses\<close>.
\<close>

definition NewScan_handleSubmit ::
    "(string \<Rightarrow> bool) \<Rightarrow> string \<Rightarrow> bool \<Rightarrow> string \<Rightarrow> nat \<Rightarrow> submission" where
  "NewScan_handleSubmit url_parses url agreed scanType customDepth =
     (if url = [] then Toast_error Url_required
      else if \<not> agreed then Toast_error Terms_required
      else if \<not> url_parses (targetUrl url) then Toast_error Invalid_url
      else Create_scan
        \<lparr>target_url = targetUrl url,
         scan_type = scanType,
         scan_depth =
           (if scanType = ''custom'' then customDepth
            else case find (\<lambda>t. type_id t = scanType) scanTypes of
                   None \<Rightarrow> 3
                 | Some t \<Rightarrow> if depth t = 0 then 3 else depth t)\<rparr>)"

section \<open>Scan history: the pagination window\<close>

text \<open>
  \<^verbatim>\<open>ScanHistory\<close> renders \<^verbatim>\<open>[...Array(Math.min(5, totalPages))].map((_, i) => ...)\<close>;
  the body of the arrow function computes \<^verbatim>\<open>pageNum\<close> from the index \<^verbatim>\<open>i\<close>, the
  current \<^verbatim>\<open>page\<close> and \<^verbatim>\<open>totalPages\<close>. The page numbers are integral JavaScript numbers,
  modelled as \<^typ>\<open>int\<close>.
\<close>

definition pageNum :: "int \<Rightarrow> int \<Rightarrow> int \<Rightarrow> int" where
  "pageNum page totalPages i =
     (if totalPages \<le> 5 then i + 1
      else if page \<le> 3 then i + 1
      else if page \<ge> totalPages - 2 then totalPages - 4 + i
      else page - 2 + i)"

definition page_window :: "int \<Rightarrow> int \<Rightarrow> int list" where
  "page_window page totalPages =
     map (\<lambda>i. pageNum page totalPages (int i)) [0..<nat (min 5 totalPages)]"

text \<open>
  The window is rendered only inside three enclosing conditions of the view: the list is
  not loading, \<^verbatim>\<open>filteredScans.length > 0\<close>, and \<^verbatim>\<open>totalPages > 1\<close>. \<open>None\<close> stands for a
  view without the pagination element.
\<close>

definition ScanHistory_pagination :: "bool \<Rightarrow> scan list \<Rightarrow> int \<Rightarrow> int \<Rightarrow> int list option" where
  "ScanHistory_pagination isLoading filteredScans page totalPages =
     (if isLoading then None
      else if length filteredScans > 0 then
        (if totalPages > 1 then Some (page_window page totalPages) else None)
      else None)"

section \<open>Properties of the API client\<close>

lemma new_events_append [simp]: "trace w' = trace w @ evs \<Longrightarrow> new_events w w' = evs"
  by (simp add: new_events_def)

lemma next_reply_Cons: "replies w = r # rs \<Longrightarrow> next_reply w = r"
  by (simp add: next_reply_def)

text \<open>A request that is already marked is sent once and its outcome returned as it is.\<close>

lemma api_retried:
  assumes "retry config"
  shows "api config w =
           (settle (request_interceptor (store w) config) (next_reply w),
            emit (Sent (request_interceptor (store w) config)) (w\<lparr>replies := tl (replies w)\<rparr>))"
proof -
  have "response_rejected error w' = (Inl error, w')" if "retry (err_config error)" for error w'
    using that by (simp add: response_rejected.simps)
  then show ?thesis
    using assms
    by (subst api.simps)
       (auto simp: send_def Let_def split: sum.split dest: settle_Inl_config)
qed

lemma request_interceptor_setTokens:
  "request_interceptor (setTokens a r st) (config\<lparr>authorization := Some (bearer a)\<rparr>)
     = config\<lparr>authorization := Some (bearer a)\<rparr>"
  by (simp add: request_interceptor_def setTokens_def)

lemma request_interceptor_truthy:
  "accessToken st = Some tok \<Longrightarrow> tok \<noteq> [] \<Longrightarrow>
     request_interceptor st config = config\<lparr>authorization := Some (bearer tok)\<rparr>"
  by (simp add: request_interceptor_def)

text \<open>The run of a request whose first answer is a 401 and whose refresh call succeeds.\<close>

lemma api_refreshed:
  assumes "\<not> retry config" and "next_reply w = Http 401 d"
    and "refreshToken (store w) = Some tok" and "tok \<noteq> []"
    and "next_refresh w = Refresh_ok a r"
  shows "fst (api config w) =
           settle ((request_interceptor (store w) config)
                      \<lparr>retry := True, authorization := Some (bearer a)\<rparr>)
             (next_reply (w\<lparr>replies := tl (replies w)\<rparr>))"
    and "store (snd (api config w)) = setTokens a r (store w)"
    and "replies (snd (api config w)) = tl (tl (replies w))"
    and "refresh_replies (snd (api config w)) = tl (refresh_replies w)"
    and "trace (snd (api config w)) = trace w @
          [Sent (request_interceptor (store w) config),
           Retry_marked ((request_interceptor (store w) config)\<lparr>retry := True\<rparr>),
           Refresh_post tok,
           Tokens_set a r,
           Sent ((request_interceptor (store w) config)
                   \<lparr>retry := True, authorization := Some (bearer a)\<rparr>)]"
  using assms
  by (subst api.simps,
      simp add: response_rejected.simps api_retried request_interceptor_setTokens settle_def
        send_def refresh_post_def emit_def next_reply_def next_refresh_def Let_def)+

text \<open>The run of a request whose first answer is a 401 and that cannot be refreshed.\<close>

lemma api_logged_out:
  assumes "\<not> retry config" and "next_reply w = Http 401 d"
    and "\<not> truthy (refreshToken (store w)) \<or> next_refresh w = Refresh_failed st"
  shows "fst (api config w) =
           Inl \<lparr>err_status = Some 401, err_data = d,
                err_config = (request_interceptor (store w) config)\<lparr>retry := True\<rparr>\<rparr>
       \<and> store (snd (api config w)) = logout (store w)
       \<and> replies (snd (api config w)) = tl (replies w)
       \<and> (\<exists>evs. trace (snd (api config w)) =
              trace w @ Sent (request_interceptor (store w) config)
                # Retry_marked ((request_interceptor (store w) config)\<lparr>retry := True\<rparr>)
                # evs @ [Logged_out]
              \<and> (evs = [] \<or> (\<exists>tok. evs = [Refresh_post tok])))"
  using assms
  by (subst (1 2 3 4) api.simps)
     (auto simp: response_rejected.simps truthy_def settle_def
        send_def refresh_post_def emit_def next_refresh_def Let_def split: option.split)

text \<open>A failure other than a 401 is returned as it is; the store is not touched.\<close>

lemma api_other_failure:
  assumes "settle (request_interceptor (store w) config) (next_reply w) = Inl error"
    and "err_status error \<noteq> Some 401"
  shows "api config w =
           (Inl error,
            emit (Sent (request_interceptor (store w) config)) (w\<lparr>replies := tl (replies w)\<rparr>))"
  using assms
  by (subst api.simps) (simp add: response_rejected.simps send_def Let_def)

text \<open>Every run of \<open>api\<close> has one of four shapes.\<close>

lemma api_trace_cases:
  "\<exists>evs. trace (snd (api config w)) = trace w @ Sent (request_interceptor (store w) config) # evs
      \<and> (evs = []
          \<or> evs = [Retry_marked ((request_interceptor (store w) config)\<lparr>retry := True\<rparr>), Logged_out]
          \<or> (\<exists>t. evs = [Retry_marked ((request_interceptor (store w) config)\<lparr>retry := True\<rparr>),
                          Refresh_post t, Logged_out])
          \<or> (\<exists>t a r c2. evs = [Retry_marked ((request_interceptor (store w) config)\<lparr>retry := True\<rparr>),
                          Refresh_post t, Tokens_set a r, Sent c2]))"
  by (subst api.simps)
     (auto simp: response_rejected.simps api_retried send_def refresh_post_def emit_def Let_def
       split: prod.split sum.split list.split option.split refresh_reply.split
       dest: settle_Inl_config)

lemma new_events_cases:
  "new_events w (snd (api config w)) = [Sent (request_interceptor (store w) config)]
   \<or> new_events w (snd (api config w)) =
        [Sent (request_interceptor (store w) config),
         Retry_marked ((request_interceptor (store w) config)\<lparr>retry := True\<rparr>), Logged_out]
   \<or> (\<exists>t. new_events w (snd (api config w)) =
        [Sent (request_interceptor (store w) config),
         Retry_marked ((request_interceptor (store w) config)\<lparr>retry := True\<rparr>),
         Refresh_post t, Logged_out])
   \<or> (\<exists>t a r c2. new_events w (snd (api config w)) =
        [Sent (request_interceptor (store w) config),
         Retry_marked ((request_interceptor (store w) config)\<lparr>retry := True\<rparr>),
         Refresh_post t, Tokens_set a r, Sent c2])"
  using api_trace_cases [of config w] by (auto simp: new_events_def)

lemma new_events_first_sent:
  "\<exists>evs. new_events w (snd (api config w)) = Sent (request_interceptor (store w) config) # evs"
  using new_events_cases [of w config] by auto

text \<open>
  Claim C1. Whatever the backend answers, one call of the client puts at most two requests
  on the wire and makes at most one refresh call, and a refresh call is made only after
  the request has been marked as retried. When a request that was not yet marked is
  answered by a 401, refreshed, re-issued and answered by a 401 again, the caller gets the
  error of the second 401; nothing is sent after the second request, and the answers that
  follow in the script are not consumed.
\<close>

theorem retried_at_most_once:
  "length (filter is_Sent (new_events w (snd (api config w)))) \<le> 2
   \<and> length (filter is_Refresh_post (new_events w (snd (api config w)))) \<le> 1
   \<and> (\<forall>pre tok post. new_events w (snd (api config w)) = pre @ Refresh_post tok # post
          \<longrightarrow> Retry_marked ((request_interceptor (store w) config)\<lparr>retry := True\<rparr>) \<in> set pre)
   \<and> (\<not> retry config \<and> replies w = Http 401 d1 # Http 401 d2 # rs
        \<and> refreshToken (store w) = Some tok \<and> tok \<noteq> [] \<and> next_refresh w = Refresh_ok a r
      \<longrightarrow> fst (api config w) =
            Inl \<lparr>err_status = Some 401, err_data = d2,
                 err_config = (request_interceptor (store w) config)
                                \<lparr>retry := True, authorization := Some (bearer a)\<rparr>\<rparr>
        \<and> new_events w (snd (api config w)) =
            [Sent (request_interceptor (store w) config),
             Retry_marked ((request_interceptor (store w) config)\<lparr>retry := True\<rparr>),
             Refresh_post tok,
             Tokens_set a r,
             Sent ((request_interceptor (store w) config)
                     \<lparr>retry := True, authorization := Some (bearer a)\<rparr>)]
        \<and> replies (snd (api config w)) = rs)"
proof (intro conjI impI allI)
  show "length (filter is_Sent (new_events w (snd (api config w)))) \<le> 2"
    using new_events_cases [of w config] by auto
  show "length (filter is_Refresh_post (new_events w (snd (api config w)))) \<le> 1"
    using new_events_cases [of w config] by auto
next
  fix pre tok post
  assume "new_events w (snd (api config w)) = pre @ Refresh_post tok # post"
  then show "Retry_marked ((request_interceptor (store w) config)\<lparr>retry := True\<rparr>) \<in> set pre"
    using new_events_cases [of w config]
    by (auto simp: append_eq_Cons_conv)
next
  assume h: "\<not> retry config \<and> replies w = Http 401 d1 # Http 401 d2 # rs
        \<and> refreshToken (store w) = Some tok \<and> tok \<noteq> [] \<and> next_refresh w = Refresh_ok a r"
  then have first: "next_reply w = Http 401 d1"
    by (simp add: next_reply_Cons)
  note r = api_refreshed [OF _ first, of config tok a r]
  show "fst (api config w) =
            Inl \<lparr>err_status = Some 401, err_data = d2,
                 err_config = (request_interceptor (store w) config)
                                \<lparr>retry := True, authorization := Some (bearer a)\<rparr>\<rparr>"
    using h r(1) by (simp add: settle_def next_reply_def)
  show "new_events w (snd (api config w)) =
            [Sent (request_interceptor (store w) config),
             Retry_marked ((request_interceptor (store w) config)\<lparr>retry := True\<rparr>),
             Refresh_post tok,
             Tokens_set a r,
             Sent ((request_interceptor (store w) config)
                     \<lparr>retry := True, authorization := Some (bearer a)\<rparr>)]"
    using h r(5) by simp
  show "replies (snd (api config w)) = rs"
    using h r(3) by simp
qed

theorem retried_at_most_once_witness:
  "fst (api \<lparr>req_url = ''/scans/7'', authorization = None, retry = False\<rparr>
         \<lparr>store = \<lparr>user = Some ''alice'', accessToken = Some ''old'', refreshToken = Some ''r1''\<rparr>,
          replies = [Http 401 ''expired'', Http 401 ''rejected again'', Http 401 ''never asked for''],
          refresh_replies = [Refresh_ok ''new'' ''r2''], trace = []\<rparr>)
     = Inl \<lparr>err_status = Some 401, err_data = ''rejected again'',
            err_config = \<lparr>req_url = ''/scans/7'', authorization = Some ''Bearer new'', retry = True\<rparr>\<rparr>
   \<and> replies (snd (api \<lparr>req_url = ''/scans/7'', authorization = None, retry = False\<rparr>
         \<lparr>store = \<lparr>user = Some ''alice'', accessToken = Some ''old'', refreshToken = Some ''r1''\<rparr>,
          replies = [Http 401 ''expired'', Http 401 ''rejected again'', Http 401 ''never asked for''],
          refresh_replies = [Refresh_ok ''new'' ''r2''], trace = []\<rparr>))
     = [Http 401 ''never asked for'']"
  using retried_at_most_once
    [of "\<lparr>store = \<lparr>user = Some ''alice'', accessToken = Some ''old'', refreshToken = Some ''r1''\<rparr>,
          replies = [Http 401 ''expired'', Http 401 ''rejected again'', Http 401 ''never asked for''],
          refresh_replies = [Refresh_ok ''new'' ''r2''], trace = []\<rparr>"
        "\<lparr>req_url = ''/scans/7'', authorization = None, retry = False\<rparr>"
        "''expired''" "''rejected again''" "[Http 401 ''never asked for'']" "''r1''" "''new''" "''r2''"]
  by (simp add: request_interceptor_def bearer_def next_refresh_def)

text \<open>
  Claim C2. A request that was not yet marked, answered by a 401 while the store holds a
  refresh token, with a refresh call that succeeds: the new access and refresh tokens are
  in the store afterwards, the request is sent a second time and only once more, with the
  new access token as bearer credential, and when the new access token is not empty every
  later request is sent with it, whatever header it came with.
\<close>

theorem refresh_success_reissues_with_new_token:
  assumes "\<not> retry config" and "next_reply w = Http 401 d"
    and "refreshToken (store w) = Some tok" and "tok \<noteq> []"
    and "next_refresh w = Refresh_ok a r"
  shows "accessToken (store (snd (api config w))) = Some a
       \<and> refreshToken (store (snd (api config w))) = Some r
       \<and> new_events w (snd (api config w)) =
            [Sent (request_interceptor (store w) config),
             Retry_marked ((request_interceptor (store w) config)\<lparr>retry := True\<rparr>),
             Refresh_post tok,
             Tokens_set a r,
             Sent ((request_interceptor (store w) config)
                     \<lparr>retry := True, authorization := Some (''Bearer '' @ a)\<rparr>)]
       \<and> (a \<noteq> [] \<longrightarrow>
            (\<forall>later. \<exists>evs. new_events (snd (api config w)) (snd (api later (snd (api config w))))
                          = Sent (later\<lparr>authorization := Some (''Bearer '' @ a)\<rparr>) # evs))"
proof (intro conjI impI allI)
  note r = api_refreshed [OF assms]
  show "accessToken (store (snd (api config w))) = Some a"
    and "refreshToken (store (snd (api config w))) = Some r"
    using r(2) by (simp_all add: setTokens_def)
  show "new_events w (snd (api config w)) =
            [Sent (request_interceptor (store w) config),
             Retry_marked ((request_interceptor (store w) config)\<lparr>retry := True\<rparr>),
             Refresh_post tok,
             Tokens_set a r,
             Sent ((request_interceptor (store w) config)
                     \<lparr>retry := True, authorization := Some (''Bearer '' @ a)\<rparr>)]"
    using r(5) by (simp add: bearer_def)
  fix later
  assume "a \<noteq> []"
  moreover have "accessToken (store (snd (api config w))) = Some a"
    using r(2) by (simp add: setTokens_def)
  ultimately have "request_interceptor (store (snd (api config w))) later
      = later\<lparr>authorization := Some (bearer a)\<rparr>"
    by (simp add: request_interceptor_truthy)
  then show "\<exists>evs. new_events (snd (api config w)) (snd (api later (snd (api config w))))
                          = Sent (later\<lparr>authorization := Some (''Bearer '' @ a)\<rparr>) # evs"
    using new_events_first_sent [of "snd (api config w)" later] by (simp add: bearer_def)
qed

theorem refresh_success_reissues_with_new_token_witness:
  "accessToken (store (snd (api \<lparr>req_url = ''/scans'', authorization = None, retry = False\<rparr>
         \<lparr>store = \<lparr>user = Some ''alice'', accessToken = Some ''old'', refreshToken = Some ''r1''\<rparr>,
          replies = [Http 401 ''expired'', Http 200 ''[]''],
          refresh_replies = [Refresh_ok ''new'' ''r2''], trace = []\<rparr>))) = Some ''new''
   \<and> new_events
         \<lparr>store = \<lparr>user = Some ''alice'', accessToken = Some ''old'', refreshToken = Some ''r1''\<rparr>,
          replies = [Http 401 ''expired'', Http 200 ''[]''],
          refresh_replies = [Refresh_ok ''new'' ''r2''], trace = []\<rparr>
         (snd (api \<lparr>req_url = ''/scans'', authorization = None, retry = False\<rparr>
         \<lparr>store = \<lparr>user = Some ''alice'', accessToken = Some ''old'', refreshToken = Some ''r1''\<rparr>,
          replies = [Http 401 ''expired'', Http 200 ''[]''],
          refresh_replies = [Refresh_ok ''new'' ''r2''], trace = []\<rparr>))
       = [Sent \<lparr>req_url = ''/scans'', authorization = Some ''Bearer old'', retry = False\<rparr>,
          Retry_marked \<lparr>req_url = ''/scans'', authorization = Some ''Bearer old'', retry = True\<rparr>,
          Refresh_post ''r1'',
          Tokens_set ''new'' ''r2'',
          Sent \<lparr>req_url = ''/scans'', authorization = Some ''Bearer new'', retry = True\<rparr>]"
  using refresh_success_reissues_with_new_token
    [of "\<lparr>req_url = ''/scans'', authorization = None, retry = False\<rparr>"
        "\<lparr>store = \<lparr>user = Some ''alice'', accessToken = Some ''old'', refreshToken = Some ''r1''\<rparr>,
          replies = [Http 401 ''expired'', Http 200 ''[]''],
          refresh_replies = [Refresh_ok ''new'' ''r2''], trace = []\<rparr>"
        "''expired''" "''r1''" "''new''" "''r2''"]
  by (simp add: request_interceptor_def bearer_def next_refresh_def next_reply_def)

text \<open>
  Claim C3. A request that was not yet marked, answered by a 401, when the store holds no
  refresh token or the refresh call fails: the caller gets the 401 error of that request
  (its status, its body and its configuration, whatever the status of the failed refresh
  call), the session store is cleared, and the request is not sent again.
\<close>

theorem refresh_failure_logs_out:
  assumes "\<not> retry config" and "next_reply w = Http 401 d"
    and "\<not> truthy (refreshToken (store w)) \<or> next_refresh w = Refresh_failed st"
  shows "fst (api config w) =
           Inl \<lparr>err_status = Some 401, err_data = d,
                err_config = (request_interceptor (store w) config)\<lparr>retry := True\<rparr>\<rparr>
       \<and> store (snd (api config w)) = logout (store w)
       \<and> store (snd (api config w)) = \<lparr>user = None, accessToken = None, refreshToken = None\<rparr>
       \<and> filter is_Sent (new_events w (snd (api config w)))
            = [Sent (request_interceptor (store w) config)]
       \<and> replies (snd (api config w)) = tl (replies w)"
proof -
  note l = api_logged_out [OF assms]
  from l obtain evs where
    tr: "trace (snd (api config w)) =
              trace w @ Sent (request_interceptor (store w) config)
                # Retry_marked ((request_interceptor (store w) config)\<lparr>retry := True\<rparr>)
                # evs @ [Logged_out]"
    and evs: "evs = [] \<or> (\<exists>tok. evs = [Refresh_post tok])"
    by blast
  have "filter is_Sent (new_events w (snd (api config w)))
            = [Sent (request_interceptor (store w) config)]"
    using tr evs by (auto simp: new_events_def)
  with l show ?thesis
    by (simp add: logout_def)
qed

theorem refresh_failure_logs_out_witness:
  "fst (api \<lparr>req_url = ''/scans'', authorization = None, retry = False\<rparr>
         \<lparr>store = \<lparr>user = Some ''alice'', accessToken = Some ''old'', refreshToken = Some ''r1''\<rparr>,
          replies = [Http 401 ''expired'', Http 200 ''[]''],
          refresh_replies = [Refresh_failed (Some 500)], trace = []\<rparr>)
     = Inl \<lparr>err_status = Some 401, err_data = ''expired'',
            err_config = \<lparr>req_url = ''/scans'', authorization = Some ''Bearer old'', retry = True\<rparr>\<rparr>
   \<and> store (snd (api \<lparr>req_url = ''/scans'', authorization = None, retry = False\<rparr>
         \<lparr>store = \<lparr>user = Some ''alice'', accessToken = Some ''old'', refreshToken = Some ''r1''\<rparr>,
          replies = [Http 401 ''expired'', Http 200 ''[]''],
          refresh_replies = [Refresh_failed (Some 500)], trace = []\<rparr>))
     = \<lparr>user = None, accessToken = None, refreshToken = None\<rparr>
   \<and> replies (snd (api \<lparr>req_url = ''/scans'', authorization = None, retry = False\<rparr>
         \<lparr>store = \<lparr>user = Some ''alice'', accessToken = Some ''old'', refreshToken = Some ''r1''\<rparr>,
          replies = [Http 401 ''expired'', Http 200 ''[]''],
          refresh_replies = [Refresh_failed (Some 500)], trace = []\<rparr>))
     = [Http 200 ''[]'']"
  using refresh_failure_logs_out
    [of "\<lparr>req_url = ''/scans'', authorization = None, retry = False\<rparr>"
        "\<lparr>store = \<lparr>user = Some ''alice'', accessToken = Some ''old'', refreshToken = Some ''r1''\<rparr>,
          replies = [Http 401 ''expired'', Http 200 ''[]''],
          refresh_replies = [Refresh_failed (Some 500)], trace = []\<rparr>"
        "''expired''" "Some 500"]
  by (simp add: request_interceptor_def bearer_def next_refresh_def next_reply_def logout_def)

text \<open>
  Claim C4. The request interceptor sets the \<open>Authorization\<close> header to \<open>Bearer\<close> and the
  access token of the store when a token is present there, and returns the configuration
  unchanged, so without adding a header, when none is present; and what a call of the
  client puts on the wire first is the configuration as the interceptor returns it for
  the store at that moment.
\<close>

theorem bearer_attached_iff_token_present:
  "(truthy (accessToken st) \<longrightarrow>
      (\<exists>tok. accessToken st = Some tok
           \<and> request_interceptor st config = config\<lparr>authorization := Some (''Bearer '' @ tok)\<rparr>))
   \<and> (\<not> truthy (accessToken st) \<longrightarrow> request_interceptor st config = config)
   \<and> (\<exists>evs. new_events w (snd (api config w))
              = Sent (request_interceptor (store w) config) # evs)"
  using new_events_first_sent [of w config]
  by (auto simp: truthy_def request_interceptor_def bearer_def split: option.splits)

theorem bearer_attached_iff_token_present_witness:
  "truthy (accessToken \<lparr>user = None, accessToken = Some ''abc'', refreshToken = None\<rparr>)
   \<and> request_interceptor \<lparr>user = None, accessToken = Some ''abc'', refreshToken = None\<rparr>
        \<lparr>req_url = ''/auth/me'', authorization = None, retry = False\<rparr>
      = \<lparr>req_url = ''/auth/me'', authorization = Some ''Bearer abc'', retry = False\<rparr>
   \<and> \<not> truthy (accessToken \<lparr>user = None, accessToken = None, refreshToken = None\<rparr>)
   \<and> request_interceptor \<lparr>user = None, accessToken = None, refreshToken = None\<rparr>
        \<lparr>req_url = ''/auth/login'', authorization = None, retry = False\<rparr>
      = \<lparr>req_url = ''/auth/login'', authorization = None, retry = False\<rparr>"
  using bearer_attached_iff_token_present
      [of "\<lparr>user = None, accessToken = Some ''abc'', refreshToken = None\<rparr>"
          "\<lparr>req_url = ''/auth/me'', authorization = None, retry = False\<rparr>"]
    bearer_attached_iff_token_present
      [of "\<lparr>user = None, accessToken = None, refreshToken = None\<rparr>"
          "\<lparr>req_url = ''/auth/login'', authorization = None, retry = False\<rparr>"]
  by (simp add: truthy_def)

section \<open>Properties of the scan detail view\<close>

lemma refetchInterval_Some [simp]:
  "refetchInterval (Some s) = (if terminal (status s) then None else Some 3000)"
  by (cases "status s") (auto simp: refetchInterval_def terminal_def)

lemma refetchInterval_None [simp]: "refetchInterval None = None"
  by (simp add: refetchInterval_def)

text \<open>
  When every fetch succeeds, the fetches made are those of the statuses before the first
  terminal one and of that one; they are 3000 ms apart.
\<close>

lemma poll_fetched_results:
  "map snd (poll data t (map Fetched ss)) =
     map Fetched (takeWhile (\<lambda>s. \<not> terminal (status s)) ss
                  @ take 1 (dropWhile (\<lambda>s. \<not> terminal (status s)) ss))"
  by (induction ss arbitrary: data t) auto

lemma times_Suc:
  "map (\<lambda>i. (t::nat) + 3000 * i) [0..<Suc n] = t # map (\<lambda>i. (t + 3000) + 3000 * i) [0..<n]"
  by (simp add: upt_conv_Cons map_Suc_upt [symmetric] del: upt_Suc)

lemma poll_fetched_times:
  "map fst (poll data t (map Fetched ss)) =
     map (\<lambda>i. t + 3000 * i) [0..<length (poll data t (map Fetched ss))]"
proof (induction ss arbitrary: data t)
  case Nil
  then show ?case by simp
next
  case (Cons s ss)
  show ?case
  proof (cases "terminal (status s)")
    case True
    then show ?thesis by simp
  next
    case False
    with Cons.IH [of "Some s" "t + 3000"] show ?thesis
      by (simp add: times_Suc del: upt_Suc)
  qed
qed






text \<open>
  While the data is a scan that is not terminal, a failed fetch that leaves the session
  in place is followed by the next fetch.
\<close>

lemma poll_intact_failures:
  assumes "\<not> terminal (status s)"
    and "\<forall>r \<in> set errs. \<exists>error st elapsed. r = Fetch_error error st elapsed \<and> isAuthenticated st"
  shows "map snd (poll (Some s) t errs) = errs"
  using assms by (induction errs arbitrary: t) auto

text \<open>How a fetch through the client ends when the backend answers with a failure.\<close>

lemma scanAPI_get_other_failure:
  assumes "settle (request_interceptor (store w)
                     \<lparr>req_url = ''/scans/'' @ scanId, authorization = None, retry = False\<rparr>)
             (next_reply w) = Inl error"
    and "err_status error \<noteq> Some 401"
  shows "fetch_reported elapsed (scanAPI_get decode scanId w) = Fetch_error error (store w) elapsed"
  using api_other_failure [OF assms]
  by (simp add: scanAPI_get_def fetch_reported_def emit_def)

lemma scanAPI_get_logged_out:
  assumes "next_reply w = Http 401 d"
    and "\<not> truthy (refreshToken (store w)) \<or> next_refresh w = Refresh_failed rst"
  shows "fetch_reported elapsed (scanAPI_get decode scanId w) =
           Fetch_error
             \<lparr>err_status = Some 401, err_data = d,
              err_config = (request_interceptor (store w)
                 \<lparr>req_url = ''/scans/'' @ scanId, authorization = None, retry = False\<rparr>)
                 \<lparr>retry := True\<rparr>\<rparr>
             (logout (store w)) elapsed"
proof -
  have "\<not> retry \<lparr>req_url = ''/scans/'' @ scanId, authorization = None, retry = False\<rparr>"
    by simp
  from api_logged_out [OF this assms] show ?thesis
    by (cases "api \<lparr>req_url = ''/scans/'' @ scanId, authorization = None, retry = False\<rparr> w")
       (simp add: scanAPI_get_def fetch_reported_def)
qed

text \<open>
  Claim C5. The refetch interval is 3000 ms exactly when the status of the scan last
  fetched is \<open>pending\<close> or \<open>running\<close>, and there is none otherwise. For every sequence of
  statuses that the successive fetches return, starting at time \<open>t\<close>, the fetches made are
  those of the statuses before the first terminal one and of that one, nothing is fetched
  after it, whatever follows, and the \<open>i\<close>-th fetch is made at \<open>t + 3000 * i\<close>.
\<close>

theorem polling_stops_at_first_terminal:
  "refetchInterval (Some s) =
      (if status s = Pending \<or> status s = Running then Some 3000 else None)
   \<and> map snd (poll None t (map Fetched ss)) =
       map Fetched (takeWhile (\<lambda>s. \<not> terminal (status s)) ss
                    @ take 1 (dropWhile (\<lambda>s. \<not> terminal (status s)) ss))
   \<and> map fst (poll None t (map Fetched ss)) =
       map (\<lambda>i. t + 3000 * i) [0..<length (poll None t (map Fetched ss))]"
  using poll_fetched_results [of None t ss] poll_fetched_times [of None t ss]
  by (auto simp: refetchInterval_def)

theorem polling_stops_at_first_terminal_witness:
  "poll None 0 (map Fetched
      [\<lparr>scan_id = 7, status = Pending, progress = 0\<rparr>,
       \<lparr>scan_id = 7, status = Running, progress = 40\<rparr>,
       \<lparr>scan_id = 7, status = Completed, progress = 100\<rparr>,
       \<lparr>scan_id = 7, status = Running, progress = 100\<rparr>])
   = [(0, Fetched \<lparr>scan_id = 7, status = Pending, progress = 0\<rparr>),
      (3000, Fetched \<lparr>scan_id = 7, status = Running, progress = 40\<rparr>),
      (6000, Fetched \<lparr>scan_id = 7, status = Completed, progress = 100\<rparr>)]"
  using polling_stops_at_first_terminal
    [of "\<lparr>scan_id = 7, status = Pending, progress = 0\<rparr>" 0
      "[\<lparr>scan_id = 7, status = Pending, progress = 0\<rparr>,
       \<lparr>scan_id = 7, status = Running, progress = 40\<rparr>,
       \<lparr>scan_id = 7, status = Completed, progress = 100\<rparr>,
       \<lparr>scan_id = 7, status = Running, progress = 100\<rparr>]"]
  by (simp add: terminal_def)



text \<open>
  Claim C7, as stated, does not hold: after a scan with status \<open>running\<close> has been fetched,
  three fetches in a row are answered by a status 500, which leaves the session as it is,
  and each of them is followed by the next fetch; after such a failure the refetch
  interval is still 3000 ms and the view still shows the page of the scan fetched before,
  not an error. The last conjunct runs one such fetch through the client.
\<close>

theorem polling_continues_after_fetch_errors_counterexample:
  "map snd (poll None 0
      [Fetched \<lparr>scan_id = 7, status = Running, progress = 40\<rparr>,
       Fetch_error
         \<lparr>err_status = Some 500, err_data = ''Internal Server Error'',
          err_config = \<lparr>req_url = ''/scans/7'', authorization = Some ''Bearer tok'', retry = False\<rparr>\<rparr>
         \<lparr>user = Some ''alice'', accessToken = Some ''tok'', refreshToken = Some ''r1''\<rparr> 7000,
       Fetch_error
         \<lparr>err_status = Some 500, err_data = ''Internal Server Error'',
          err_config = \<lparr>req_url = ''/scans/7'', authorization = Some ''Bearer tok'', retry = False\<rparr>\<rparr>
         \<lparr>user = Some ''alice'', accessToken = Some ''tok'', refreshToken = Some ''r1''\<rparr> 7000,
       Fetch_error
         \<lparr>err_status = Some 500, err_data = ''Internal Server Error'',
          err_config = \<lparr>req_url = ''/scans/7'', authorization = Some ''Bearer tok'', retry = False\<rparr>\<rparr>
         \<lparr>user = Some ''alice'', accessToken = Some ''tok'', refreshToken = Some ''r1''\<rparr> 7000])
   = [Fetched \<lparr>scan_id = 7, status = Running, progress = 40\<rparr>,
       Fetch_error
         \<lparr>err_status = Some 500, err_data = ''Internal Server Error'',
          err_config = \<lparr>req_url = ''/scans/7'', authorization = Some ''Bearer tok'', retry = False\<rparr>\<rparr>
         \<lparr>user = Some ''alice'', accessToken = Some ''tok'', refreshToken = Some ''r1''\<rparr> 7000,
       Fetch_error
         \<lparr>err_status = Some 500, err_data = ''Internal Server Error'',
          err_config = \<lparr>req_url = ''/scans/7'', authorization = Some ''Bearer tok'', retry = False\<rparr>\<rparr>
         \<lparr>user = Some ''alice'', accessToken = Some ''tok'', refreshToken = Some ''r1''\<rparr> 7000,
       Fetch_error
         \<lparr>err_status = Some 500, err_data = ''Internal Server Error'',
          err_config = \<lparr>req_url = ''/scans/7'', authorization = Some ''Bearer tok'', retry = False\<rparr>\<rparr>
         \<lparr>user = Some ''alice'', accessToken = Some ''tok'', refreshToken = Some ''r1''\<rparr> 7000]
   \<and> refetchInterval
        (query_data (Some \<lparr>scan_id = 7, status = Running, progress = 40\<rparr>)
          (Fetch_error
            \<lparr>err_status = Some 500, err_data = ''Internal Server Error'',
             err_config = \<lparr>req_url = ''/scans/7'', authorization = Some ''Bearer tok'', retry = False\<rparr>\<rparr>
            \<lparr>user = Some ''alice'', accessToken = Some ''tok'', refreshToken = Some ''r1''\<rparr> 7000))
      = Some 3000
   \<and> ScanDetail False
        (query_data (Some \<lparr>scan_id = 7, status = Running, progress = 40\<rparr>)
          (Fetch_error
            \<lparr>err_status = Some 500, err_data = ''Internal Server Error'',
             err_config = \<lparr>req_url = ''/scans/7'', authorization = Some ''Bearer tok'', retry = False\<rparr>\<rparr>
            \<lparr>user = Some ''alice'', accessToken = Some ''tok'', refreshToken = Some ''r1''\<rparr> 7000))
      = Scan_page \<lparr>scan_id = 7, status = Running, progress = 40\<rparr>
   \<and> fetch_reported 7000
        (scanAPI_get (\<lambda>body. \<lparr>scan_id = 7, status = Running, progress = 40\<rparr>) ''7''
          \<lparr>store = \<lparr>user = Some ''alice'', accessToken = Some ''tok'', refreshToken = Some ''r1''\<rparr>,
           replies = [Http 500 ''Internal Server Error''],
           refresh_replies = [], trace = []\<rparr>)
      = Fetch_error
          \<lparr>err_status = Some 500, err_data = ''Internal Server Error'',
           err_config = \<lparr>req_url = ''/scans/7'', authorization = Some ''Bearer tok'', retry = False\<rparr>\<rparr>
          \<lparr>user = Some ''alice'', accessToken = Some ''tok'', refreshToken = Some ''r1''\<rparr> 7000"
proof -
  have "fetch_reported 7000
        (scanAPI_get (\<lambda>body. \<lparr>scan_id = 7, status = Running, progress = 40\<rparr>) ''7''
          \<lparr>store = \<lparr>user = Some ''alice'', accessToken = Some ''tok'', refreshToken = Some ''r1''\<rparr>,
           replies = [Http 500 ''Internal Server Error''],
           refresh_replies = [], trace = []\<rparr>)
      = Fetch_error
          \<lparr>err_status = Some 500, err_data = ''Internal Server Error'',
           err_config = \<lparr>req_url = ''/scans/7'', authorization = Some ''Bearer tok'', retry = False\<rparr>\<rparr>
          \<lparr>user = Some ''alice'', accessToken = Some ''tok'', refreshToken = Some ''r1''\<rparr> 7000"
    by (subst scanAPI_get_other_failure
          [where error = "\<lparr>err_status = Some 500, err_data = ''Internal Server Error'',
             err_config = \<lparr>req_url = ''/scans/7'', authorization = Some ''Bearer tok'',
                           retry = False\<rparr>\<rparr>"])
       (simp_all add: settle_def request_interceptor_def bearer_def next_reply_def)
  then show ?thesis
    by (simp add: terminal_def ScanDetail_def isAuthenticated_def)
qed

text \<open>
  Claim C7, amended. When a fetch fails while the scan last fetched is \<open>pending\<close> or
  \<open>running\<close> and the failure leaves the session in place, the scan is kept, the view goes
  on showing it, the refetch interval stays 3000 ms and the fetch is repeated: of any
  number of such failures in a row, every one is followed by the next fetch. A failure
  with a status other than 401, or without a response, leaves the store as it was. A 401
  with no refresh token or with a failed refresh call leaves the store logged out; then
  the route guard puts the redirection to the login page in place of the view and no
  fetch follows. When no scan has been fetched at all, a failed fetch ends the polling and
  the view shows the "scan not found" page.
\<close>

theorem polling_after_fetch_error:
  "(\<not> terminal (status s)
      \<and> (\<forall>r \<in> set errs. \<exists>error st elapsed. r = Fetch_error error st elapsed \<and> isAuthenticated st)
      \<longrightarrow> map snd (poll None t (Fetched s # errs)) = Fetched s # errs)
   \<and> (\<not> terminal (status s)
      \<longrightarrow> refetchInterval (query_data (Some s) (Fetch_error error st elapsed)) = Some 3000
        \<and> ScanDetail False (query_data (Some s) (Fetch_error error st elapsed)) = Scan_page s)
   \<and> (\<not> isAuthenticated st
      \<longrightarrow> poll data t (Fetch_error error st elapsed # rs) = [(t, Fetch_error error st elapsed)]
        \<and> ProtectedRoute st (ScanDetail False data) = Navigate_to_login)
   \<and> poll None t (Fetch_error error st elapsed # rs) = [(t, Fetch_error error st elapsed)]
   \<and> ScanDetail False (query_data None (Fetch_error error st elapsed)) = Scan_not_found
   \<and> (next_reply w = Http code d \<and> \<not> (200 \<le> code \<and> code < 300) \<and> code \<noteq> 401
      \<longrightarrow> fetch_reported elapsed (scanAPI_get decode scanId w) =
            Fetch_error
              \<lparr>err_status = Some code, err_data = d,
               err_config = request_interceptor (store w)
                  \<lparr>req_url = ''/scans/'' @ scanId, authorization = None, retry = False\<rparr>\<rparr>
              (store w) elapsed)
   \<and> (next_reply w = No_response
      \<longrightarrow> fetch_reported elapsed (scanAPI_get decode scanId w) =
            Fetch_error
              \<lparr>err_status = None, err_data = [],
               err_config = request_interceptor (store w)
                  \<lparr>req_url = ''/scans/'' @ scanId, authorization = None, retry = False\<rparr>\<rparr>
              (store w) elapsed)
   \<and> (next_reply w = Http 401 d
        \<and> (\<not> truthy (refreshToken (store w)) \<or> next_refresh w = Refresh_failed rst)
      \<longrightarrow> fetch_reported elapsed (scanAPI_get decode scanId w) =
            Fetch_error
              \<lparr>err_status = Some 401, err_data = d,
               err_config = (request_interceptor (store w)
                  \<lparr>req_url = ''/scans/'' @ scanId, authorization = None, retry = False\<rparr>)
                  \<lparr>retry := True\<rparr>\<rparr>
              (logout (store w)) elapsed
        \<and> \<not> isAuthenticated (logout (store w)))"
proof (intro conjI impI)
  assume "\<not> terminal (status s)
      \<and> (\<forall>r \<in> set errs. \<exists>error st elapsed. r = Fetch_error error st elapsed \<and> isAuthenticated st)"
  then show "map snd (poll None t (Fetched s # errs)) = Fetched s # errs"
    by (simp add: poll_intact_failures)
next
  assume "\<not> terminal (status s)"
  then show "refetchInterval (query_data (Some s) (Fetch_error error st elapsed)) = Some 3000"
    and "ScanDetail False (query_data (Some s) (Fetch_error error st elapsed)) = Scan_page s"
    by (simp_all add: ScanDetail_def)
next
  assume "\<not> isAuthenticated st"
  then show "poll data t (Fetch_error error st elapsed # rs) = [(t, Fetch_error error st elapsed)]"
    and "ProtectedRoute st (ScanDetail False data) = Navigate_to_login"
    by (simp_all add: ProtectedRoute_def)
next
  show "poll None t (Fetch_error error st elapsed # rs) = [(t, Fetch_error error st elapsed)]"
    by simp
  show "ScanDetail False (query_data None (Fetch_error error st elapsed)) = Scan_not_found"
    by (simp add: ScanDetail_def)
next
  assume "next_reply w = Http code d \<and> \<not> (200 \<le> code \<and> code < 300) \<and> code \<noteq> 401"
  then show "fetch_reported elapsed (scanAPI_get decode scanId w) =
            Fetch_error
              \<lparr>err_status = Some code, err_data = d,
               err_config = request_interceptor (store w)
                  \<lparr>req_url = ''/scans/'' @ scanId, authorization = None, retry = False\<rparr>\<rparr>
              (store w) elapsed"
    by (intro scanAPI_get_other_failure) (auto simp: settle_def)
next
  assume "next_reply w = No_response"
  then show "fetch_reported elapsed (scanAPI_get decode scanId w) =
            Fetch_error
              \<lparr>err_status = None, err_data = [],
               err_config = request_interceptor (store w)
                  \<lparr>req_url = ''/scans/'' @ scanId, authorization = None, retry = False\<rparr>\<rparr>
              (store w) elapsed"
    by (intro scanAPI_get_other_failure) (auto simp: settle_def)
next
  assume h: "next_reply w = Http 401 d
        \<and> (\<not> truthy (refreshToken (store w)) \<or> next_refresh w = Refresh_failed rst)"
  then show "fetch_reported elapsed (scanAPI_get decode scanId w) =
            Fetch_error
              \<lparr>err_status = Some 401, err_data = d,
               err_config = (request_interceptor (store w)
                  \<lparr>req_url = ''/scans/'' @ scanId, authorization = None, retry = False\<rparr>)
                  \<lparr>retry := True\<rparr>\<rparr>
              (logout (store w)) elapsed"
    by (intro scanAPI_get_logged_out) auto
  show "\<not> isAuthenticated (logout (store w))"
    by (simp add: isAuthenticated_def logout_def)
qed

theorem polling_after_fetch_error_witness:
  "\<not> terminal (status \<lparr>scan_id = 7, status = Pending, progress = 0\<rparr>)
   \<and> isAuthenticated \<lparr>user = Some ''alice'', accessToken = Some ''tok'', refreshToken = Some ''r1''\<rparr>
   \<and> map snd (poll None 0
        [Fetched \<lparr>scan_id = 7, status = Pending, progress = 0\<rparr>,
         Fetch_error
           \<lparr>err_status = None, err_data = [],
            err_config = \<lparr>req_url = ''/scans/7'', authorization = Some ''Bearer tok'', retry = False\<rparr>\<rparr>
           \<lparr>user = Some ''alice'', accessToken = Some ''tok'', refreshToken = Some ''r1''\<rparr> 0,
         Fetch_error
           \<lparr>err_status = Some 503, err_data = ''busy'',
            err_config = \<lparr>req_url = ''/scans/7'', authorization = Some ''Bearer tok'', retry = False\<rparr>\<rparr>
           \<lparr>user = Some ''alice'', accessToken = Some ''tok'', refreshToken = Some ''r1''\<rparr> 7000])
      = [Fetched \<lparr>scan_id = 7, status = Pending, progress = 0\<rparr>,
         Fetch_error
           \<lparr>err_status = None, err_data = [],
            err_config = \<lparr>req_url = ''/scans/7'', authorization = Some ''Bearer tok'', retry = False\<rparr>\<rparr>
           \<lparr>user = Some ''alice'', accessToken = Some ''tok'', refreshToken = Some ''r1''\<rparr> 0,
         Fetch_error
           \<lparr>err_status = Some 503, err_data = ''busy'',
            err_config = \<lparr>req_url = ''/scans/7'', authorization = Some ''Bearer tok'', retry = False\<rparr>\<rparr>
           \<lparr>user = Some ''alice'', accessToken = Some ''tok'', refreshToken = Some ''r1''\<rparr> 7000]
   \<and> fetch_reported 0
        (scanAPI_get (\<lambda>body. \<lparr>scan_id = 7, status = Pending, progress = 0\<rparr>) ''7''
          \<lparr>store = \<lparr>user = Some ''alice'', accessToken = Some ''tok'', refreshToken = Some ''r1''\<rparr>,
           replies = [Http 401 ''expired''],
           refresh_replies = [Refresh_failed (Some 401)], trace = []\<rparr>)
      = Fetch_error
          \<lparr>err_status = Some 401, err_data = ''expired'',
           err_config = \<lparr>req_url = ''/scans/7'', authorization = Some ''Bearer tok'', retry = True\<rparr>\<rparr>
          \<lparr>user = None, accessToken = None, refreshToken = None\<rparr> 0
   \<and> poll (Some \<lparr>scan_id = 7, status = Pending, progress = 0\<rparr>) 3000
        [Fetch_error
          \<lparr>err_status = Some 401, err_data = ''expired'',
           err_config = \<lparr>req_url = ''/scans/7'', authorization = Some ''Bearer tok'', retry = True\<rparr>\<rparr>
          \<lparr>user = None, accessToken = None, refreshToken = None\<rparr> 0,
         Fetched \<lparr>scan_id = 7, status = Running, progress = 10\<rparr>]
      = [(3000, Fetch_error
          \<lparr>err_status = Some 401, err_data = ''expired'',
           err_config = \<lparr>req_url = ''/scans/7'', authorization = Some ''Bearer tok'', retry = True\<rparr>\<rparr>
          \<lparr>user = None, accessToken = None, refreshToken = None\<rparr> 0)]"
  using polling_after_fetch_error
    [of "\<lparr>scan_id = 7, status = Pending, progress = 0\<rparr>"
        "[Fetch_error
           \<lparr>err_status = None, err_data = [],
            err_config = \<lparr>req_url = ''/scans/7'', authorization = Some ''Bearer tok'', retry = False\<rparr>\<rparr>
           \<lparr>user = Some ''alice'', accessToken = Some ''tok'', refreshToken = Some ''r1''\<rparr> 0,
         Fetch_error
           \<lparr>err_status = Some 503, err_data = ''busy'',
            err_config = \<lparr>req_url = ''/scans/7'', authorization = Some ''Bearer tok'', retry = False\<rparr>\<rparr>
           \<lparr>user = Some ''alice'', accessToken = Some ''tok'', refreshToken = Some ''r1''\<rparr> 7000]"
        0
        "\<lparr>err_status = Some 401, err_data = ''expired'',
           err_config = \<lparr>req_url = ''/scans/7'', authorization = Some ''Bearer tok'', retry = True\<rparr>\<rparr>"
        "\<lparr>user = None, accessToken = None, refreshToken = None\<rparr>"
        0
        "Some \<lparr>scan_id = 7, status = Pending, progress = 0\<rparr>"
        "[Fetched \<lparr>scan_id = 7, status = Running, progress = 10\<rparr>]"
        "\<lparr>store = \<lparr>user = Some ''alice'', accessToken = Some ''tok'', refreshToken = Some ''r1''\<rparr>,
           replies = [Http 401 ''expired''],
           refresh_replies = [Refresh_failed (Some 401)], trace = []\<rparr>"
        401 "''expired''"
        "\<lambda>body. \<lparr>scan_id = 7, status = Pending, progress = 0\<rparr>" "''7''" "Some 401"]
  by (simp add: terminal_def isAuthenticated_def logout_def request_interceptor_def bearer_def
        next_reply_def next_refresh_def)

section \<open>Properties of the forms\<close>

text \<open>
  Claim C8, as stated, does not hold: for a failed login whose response has status 422 and
  a detail of two entries, one message is shown, the two texts joined by a comma; the
  new-scan form hands the whole array to one call of \<^verbatim>\<open>toast.error\<close>.
\<close>

theorem details_collapsed_on_login_counterexample:
  "Login_catch (Response_received 422
      (Detail_list [Entry_object (Some ''value is not a valid email address''),
                    Entry_object (Some ''field required'')]))
     = [Server_text ''value is not a valid email address, field required'']
   \<and> NewScan_catch (Response_received 422
      (Detail_list [Entry_object (Some ''value is not a valid email address''),
                    Entry_object (Some ''field required'')]))
     = [Raw (Detail_list [Entry_object (Some ''value is not a valid email address''),
                          Entry_object (Some ''field required'')])]"
  by (simp add: Login_catch_def NewScan_catch_def string_of_def)

text \<open>
  Claim C8, amended. For a failed request whose response has a status other than 500 and a
  detail that is a non-empty list: the registration form shows one message for each entry,
  the \<open>i\<close>-th message being the text of the \<open>i\<close>-th entry (the fixed text for invalid input
  when the entry has none); the login form shows one message, the texts of the entries
  joined by a comma and a space.
\<close>

theorem validation_details_rendering:
  "code \<noteq> 500 \<and> errs \<noteq> [] \<longrightarrow>
     length (Register_catch (Response_received code (Detail_list errs))) = length errs
     \<and> (\<forall>i < length errs.
          Register_catch (Response_received code (Detail_list errs)) ! i
            = Register_entry (errs ! i))
     \<and> Login_catch (Response_received code (Detail_list errs))
         = [Server_text (join '', '' (map (\<lambda>err. string_of (msg err)) errs))]"
  by (simp add: Register_catch_def Login_catch_def)

theorem validation_details_rendering_witness:
  "(422::nat) \<noteq> 500
   \<and> Register_catch (Response_received 422
        (Detail_list [Entry_object (Some ''value is not a valid email address''),
                      Entry_string ''field required'', Entry_object None]))
      = [Server_text ''value is not a valid email address'',
         Server_text ''field required'', Fixed Invalid_input]
   \<and> Login_catch (Response_received 422
        (Detail_list [Entry_object (Some ''value is not a valid email address''),
                      Entry_string ''field required'', Entry_object None]))
      = [Server_text ''value is not a valid email address, , '']"
  using validation_details_rendering
    [of 422 "[Entry_object (Some ''value is not a valid email address''),
              Entry_string ''field required'', Entry_object None]"]
  by (simp add: Register_catch_def or_else_def string_of_def)

section \<open>Properties of the new-scan form\<close>

text \<open>
  Claim C9. For a URL that is not empty, the target URL is the input with \<open>https://\<close> put
  in front when the input starts with neither \<open>http://\<close> nor \<open>https://\<close>, and the input
  itself otherwise. A request to create a scan is made only with that target URL, only
  when the URL parser accepts it (and the terms are agreed to); when the parser rejects
  it an error is shown and no request is made; when it accepts it and the terms are
  agreed to, the request is made.
\<close>

theorem new_scan_url_normalised_and_validated:
  "url \<noteq> [] \<longrightarrow>
     targetUrl url =
       (if startsWith url ''http://'' \<or> startsWith url ''https://'' then url
        else ''https://'' @ url)
     \<and> (\<forall>req. NewScan_handleSubmit url_parses url agreed scanType customDepth = Create_scan req
           \<longrightarrow> target_url req = targetUrl url \<and> url_parses (targetUrl url) \<and> agreed)
     \<and> (\<not> url_parses (targetUrl url)
           \<longrightarrow> (\<exists>text. NewScan_handleSubmit url_parses url agreed scanType customDepth
                        = Toast_error text))
     \<and> (agreed \<and> url_parses (targetUrl url)
           \<longrightarrow> (\<exists>req. NewScan_handleSubmit url_parses url agreed scanType customDepth
                        = Create_scan req \<and> target_url req = targetUrl url))"
  by (auto simp: NewScan_handleSubmit_def targetUrl_def)

theorem new_scan_url_normalised_and_validated_witness:
  "''example.com'' \<noteq> []
   \<and> targetUrl ''example.com'' = ''https://example.com''
   \<and> NewScan_handleSubmit (\<lambda>u. startsWith u ''https://'') ''example.com'' True ''full'' 3
      = Create_scan \<lparr>target_url = ''https://example.com'', scan_type = ''full'', scan_depth = 3\<rparr>
   \<and> NewScan_handleSubmit (\<lambda>u. False) ''example.com'' True ''full'' 3 = Toast_error Invalid_url"
  using new_scan_url_normalised_and_validated
    [of "''example.com''" "\<lambda>u. startsWith u ''https://''" True "''full''" 3]
  by (simp add: NewScan_handleSubmit_def targetUrl_def startsWith_def scanTypes_def)

section \<open>Properties of the pagination window\<close>

lemma length_page_window: "length (page_window p tp) = nat (min 5 tp)"
  by (simp add: page_window_def)

lemma nth_page_window:
  "i < nat (min 5 tp) \<Longrightarrow> page_window p tp ! i = pageNum p tp (int i)"
  by (simp add: page_window_def)

lemma pageNum_Suc: "pageNum p tp (int (Suc i)) = pageNum p tp (int i) + 1"
  by (simp add: pageNum_def)

lemma pageNum_bounds:
  assumes "1 \<le> p" and "p \<le> tp" and "i < nat (min 5 tp)"
  shows "1 \<le> pageNum p tp (int i) \<and> pageNum p tp (int i) \<le> tp"
  using assms by (auto simp: pageNum_def)

lemma page_in_window:
  assumes "1 \<le> p" and "p \<le> tp"
  shows "p \<in> set (page_window p tp)"
proof -
  define k where "k = (if tp \<le> 5 then p - 1 else if p \<le> 3 then p - 1
                       else if p \<ge> tp - 2 then p - tp + 4 else 2)"
  have k0: "0 \<le> k" and k5: "k < min 5 tp"
    using assms by (auto simp: k_def)
  have val: "pageNum p tp k = p"
    by (auto simp: pageNum_def k_def)
  have lt: "nat k < nat (min 5 tp)"
    using k0 k5 by simp
  then have "page_window p tp ! nat k \<in> set (page_window p tp)"
    by (intro nth_mem) (simp add: length_page_window)
  moreover have "page_window p tp ! nat k = pageNum p tp (int (nat k))"
    using lt by (rule nth_page_window)
  ultimately show ?thesis
    using k0 val by simp
qed

text \<open>
  For a current page \<open>p\<close> with \<open>1 \<le> p \<le> totalPages\<close>, the list \<open>page_window\<close> holds
  \<open>min 5 totalPages\<close> page numbers, each of them between \<open>1\<close> and \<open>totalPages\<close>, each one
  the successor of the one before it, and \<open>p\<close> is one of them.
\<close>

lemma page_window_props:
  assumes "1 \<le> p" and "p \<le> tp"
  shows "int (length (page_window p tp)) = min 5 tp
       \<and> (\<forall>n \<in> set (page_window p tp). 1 \<le> n \<and> n \<le> tp)
       \<and> (\<forall>i. Suc i < length (page_window p tp)
              \<longrightarrow> page_window p tp ! Suc i = page_window p tp ! i + 1)
       \<and> p \<in> set (page_window p tp)"
proof (intro conjI)
  show "int (length (page_window p tp)) = min 5 tp"
    using assms by (simp add: length_page_window)
  show "\<forall>n \<in> set (page_window p tp). 1 \<le> n \<and> n \<le> tp"
  proof
    fix n assume "n \<in> set (page_window p tp)"
    then obtain i where "i < nat (min 5 tp)" and "n = pageNum p tp (int i)"
      by (auto simp: page_window_def)
    with assms show "1 \<le> n \<and> n \<le> tp"
      using pageNum_bounds by blast
  qed
  show "\<forall>i. Suc i < length (page_window p tp)
          \<longrightarrow> page_window p tp ! Suc i = page_window p tp ! i + 1"
    by (simp add: length_page_window nth_page_window pageNum_Suc del: of_nat_Suc)
  show "p \<in> set (page_window p tp)"
    using assms by (rule page_in_window)
qed

text \<open>
  Claim C10, as stated, does not hold: with one page in all, a list that is loaded and a
  scan in it, so with \<open>p = 1\<close> and \<open>totalPages = 1\<close>, the view has no pagination element
  and shows no page number.
\<close>

theorem no_pagination_for_single_page_counterexample:
  "ScanHistory_pagination False [\<lparr>scan_id = 1, status = Completed, progress = 100\<rparr>] 1 1 = None"
  by (simp add: ScanHistory_pagination_def)

text \<open>
  Claim C10, amended. For a current page \<open>p\<close> with \<open>1 \<le> p \<le> totalPages\<close> and at least two
  pages, when the list is loaded and the filtered list of scans is not empty, the view
  shows a pagination window of \<open>min 5 totalPages\<close> page numbers, each of them between \<open>1\<close>
  and \<open>totalPages\<close>, each one the successor of the one before it, and \<open>p\<close> is one of them.
  With at most one page, while the list is loading, or when the filtered list is empty,
  the view shows no pagination window.
\<close>

theorem pagination_window_correct:
  "(1 \<le> p \<and> p \<le> tp \<and> 2 \<le> tp \<and> \<not> isLoading \<and> filteredScans \<noteq> []
      \<longrightarrow> (\<exists>win. ScanHistory_pagination isLoading filteredScans p tp = Some win
             \<and> int (length win) = min 5 tp
             \<and> (\<forall>n \<in> set win. 1 \<le> n \<and> n \<le> tp)
             \<and> (\<forall>i. Suc i < length win \<longrightarrow> win ! Suc i = win ! i + 1)
             \<and> p \<in> set win))
   \<and> (tp \<le> 1 \<or> isLoading \<or> filteredScans = []
      \<longrightarrow> ScanHistory_pagination isLoading filteredScans p tp = None)"
proof (intro conjI impI)
  assume h: "1 \<le> p \<and> p \<le> tp \<and> 2 \<le> tp \<and> \<not> isLoading \<and> filteredScans \<noteq> []"
  then have "ScanHistory_pagination isLoading filteredScans p tp = Some (page_window p tp)"
    by (simp add: ScanHistory_pagination_def)
  moreover from h have "1 \<le> p" and "p \<le> tp" by simp_all
  note page_window_props [OF this]
  ultimately show "\<exists>win. ScanHistory_pagination isLoading filteredScans p tp = Some win
             \<and> int (length win) = min 5 tp
             \<and> (\<forall>n \<in> set win. 1 \<le> n \<and> n \<le> tp)
             \<and> (\<forall>i. Suc i < length win \<longrightarrow> win ! Suc i = win ! i + 1)
             \<and> p \<in> set win"
    by blast
next
  assume "tp \<le> 1 \<or> isLoading \<or> filteredScans = []"
  then show "ScanHistory_pagination isLoading filteredScans p tp = None"
    by (auto simp: ScanHistory_pagination_def)
qed

theorem pagination_window_correct_witness:
  "(1::int) \<le> 7 \<and> (7::int) \<le> 9 \<and> (2::int) \<le> 9
   \<and> ScanHistory_pagination False [\<lparr>scan_id = 1, status = Completed, progress = 100\<rparr>] 7 9
      = Some [5, 6, 7, 8, 9]
   \<and> ScanHistory_pagination False [\<lparr>scan_id = 1, status = Completed, progress = 100\<rparr>] 1 1
      = None"
proof -
  have w: "page_window 7 9 = [5, 6, 7, 8, 9]"
    by (simp add: page_window_def pageNum_def upt_conv_Cons)
  from pagination_window_correct
      [of 7 9 False "[\<lparr>scan_id = 1, status = Completed, progress = 100\<rparr>]"]
    pagination_window_correct
      [of 1 1 False "[\<lparr>scan_id = 1, status = Completed, progress = 100\<rparr>]"]
    w show ?thesis
    by (simp add: ScanHistory_pagination_def)
qed

end
